theory Spec2Isabelle
  imports Complex_Main "HOL-Library.Sublist" "HOL-Library.Multiset"
begin

section \<open>Data model (src/lib/mockData.ts, src/app/page.tsx)\<close>

text \<open>
  The four interfaces of \<^verbatim>\<open>mockData.ts\<close>. Several interfaces share the field names
  \<^verbatim>\<open>id\<close>, \<^verbatim>\<open>name\<close> and \<^verbatim>\<open>programId\<close>; the reference tables carry a one-letter prefix
  (\<open>c_\<close>, \<open>p_\<close>, \<open>t_\<close>), the event record keeps the source's names.

  A \<^verbatim>\<open>Date\<close> is its time value (milliseconds since the epoch, \<^verbatim>\<open>getTime()\<close>).
  \<^verbatim>\<open>correct\<close>, \<^verbatim>\<open>incorrect\<close> are trial counts: the generator produces whole numbers
  clamped with \<^verbatim>\<open>Math.max(0, Math.min(trials, correct))\<close> and \<^verbatim>\<open>trials - ...\<close>, so they are
  naturals. \<^verbatim>\<open>mastery\<close> is \<^verbatim>\<open>Math.random() * 100\<close>, a fractional number that is never
  NaN; it is a real here, which orders such numbers as \<^verbatim>\<open><\<close> and \<^verbatim>\<open>>\<close> do.
\<close>

datatype Status = Active | Inactive | Discharged

record Client =
  c_id :: string
  c_name :: string
  c_age :: nat
  c_diagnosisDate :: int
  c_therapist :: string
  c_status :: Status

record Program =
  p_id :: string
  p_name :: string
  p_category :: string
  p_targetCount :: nat

record Target =
  t_id :: string
  t_programId :: string
  t_name :: string
  t_mastery :: real
  t_trials :: nat
  t_successRate :: real

record DataPoint =
  date :: int
  clientId :: string
  programId :: string
  targetId :: string
  correct :: nat
  incorrect :: nat
  sessionDuration :: nat

text \<open>\<^verbatim>\<open>interface Filters\<close> of \<^verbatim>\<open>page.tsx\<close>; \<^verbatim>\<open>dateRange: { start: Date; end: Date }\<close>.\<close>

record DateRange =
  start :: int
  end' :: int

record Filters =
  clientIds :: "string list"
  programIds :: "string list"
  categories :: "string list"
  therapists :: "string list"
  dateRange :: DateRange
  targetIds :: "string list"
  minMastery :: real
  maxMastery :: real

text \<open>The exceptions a call can end with.\<close>

datatype error = RangeError | TypeError

section \<open>Filter Predicate Evaluator (page.tsx, filteredData)\<close>

text \<open>
  \<^verbatim>\<open>isWithinInterval\<close> is imported from the package date-fns, which is not part of the
  sources. It is a parameter of the model: a function from the event's time and the range
  to an exception or a boolean. Releases of the package differ on a range whose start is
  after its end (one line of releases throws a RangeError, a later one orders the two ends
  first); on a range with \<open>start \<le> end\<close> all of them test inclusive membership, which is
  what \<open>inclusive_when_ordered\<close> says.
\<close>

type_synonym within_interval = "int \<Rightarrow> DateRange \<Rightarrow> error + bool"

definition inclusive_when_ordered :: "within_interval \<Rightarrow> bool" where
  "inclusive_when_ordered isWithinInterval \<longleftrightarrow>
     (\<forall>t r. start r \<le> end' r \<longrightarrow> isWithinInterval t r = Inr (start r \<le> t \<and> t \<le> end' r))"

text \<open>
  Modelled from the spec: date-fns \<^verbatim>\<open>isWithinInterval\<close> is missing from the sources; section
  4.1 reads "event.date in [spec.dateRange.start, spec.dateRange.end], inclusive both ends",
  and section 7 says a range with start after end is not rejected. This instance serves as
  the concrete library wherever a theorem is run on an example.
\<close>

definition isWithinInterval_spec :: within_interval where
  "isWithinInterval_spec t r = Inr (start r \<le> t \<and> t \<le> end' r)"

text \<open>
  Two behaviours of released versions of the package on a range whose start is after its
  end: date-fns 2.x throws \<^verbatim>\<open>RangeError('Invalid interval')\<close> unless \<open>start \<le> end\<close>;
  date-fns 3.x and 4.x sort the two ends and test membership between them. Both test
  inclusive membership on an ordered range.
\<close>

definition isWithinInterval_throwing :: within_interval where
  "isWithinInterval_throwing t r =
     (if start r \<le> end' r then Inr (start r \<le> t \<and> t \<le> end' r) else Inl RangeError)"

definition isWithinInterval_sorting :: within_interval where
  "isWithinInterval_sorting t r =
     Inr (min (start r) (end' r) \<le> t \<and> t \<le> max (start r) (end' r))"

text \<open>
  The callback of \<^verbatim>\<open>dataPoints.filter(dp => ...)\<close>, lines 62-85: a chain of early
  \<^verbatim>\<open>return false\<close>, in the source's order. \<^verbatim>\<open>xs.length && !xs.includes(v)\<close> is
  \<open>length xs \<noteq> 0 \<and> v \<notin> set xs\<close>; \<^verbatim>\<open>Array.prototype.find\<close> is \<open>find\<close> (first match, or
  \<open>None\<close> for \<^verbatim>\<open>undefined\<close>). The date test comes last, so an exception of
  \<^verbatim>\<open>isWithinInterval\<close> can only surface for an event that passed every other test.
\<close>

definition keeps ::
  "within_interval \<Rightarrow> Client list \<Rightarrow> Program list \<Rightarrow> Target list \<Rightarrow> Filters \<Rightarrow> DataPoint
     \<Rightarrow> error + bool" where
  "keeps isWithinInterval clients allPrograms allTargets filters dp =
    (if length (clientIds filters) \<noteq> 0 \<and> clientId dp \<notin> set (clientIds filters) then Inr False
     else if length (programIds filters) \<noteq> 0 \<and> programId dp \<notin> set (programIds filters) then Inr False
     else if length (targetIds filters) \<noteq> 0 \<and> targetId dp \<notin> set (targetIds filters) then Inr False
     else
       let target = find (\<lambda>t. t_id t = targetId dp) allTargets in
       if (case target of None \<Rightarrow> False
           | Some t \<Rightarrow> t_mastery t < minMastery filters \<or> t_mastery t > maxMastery filters)
       then Inr False
       else
         let program = find (\<lambda>p. p_id p = programId dp) allPrograms in
         if (case program of None \<Rightarrow> False
             | Some p \<Rightarrow> length (categories filters) \<noteq> 0 \<and> p_category p \<notin> set (categories filters))
         then Inr False
         else
           let client = find (\<lambda>c. c_id c = clientId dp) clients in
           if (case client of None \<Rightarrow> False
               | Some c \<Rightarrow> length (therapists filters) \<noteq> 0 \<and> c_therapist c \<notin> set (therapists filters))
           then Inr False
           else
             (case isWithinInterval (date dp) (dateRange filters) of
                Inl e \<Rightarrow> Inl e
              | Inr b \<Rightarrow> if \<not> b then Inr False else Inr True))"

text \<open>
  \<^verbatim>\<open>Array.prototype.filter\<close> with a callback that may throw: the elements are visited from
  left to right, the first exception ends the call, otherwise the kept elements are
  returned in a new array, in the order of the input.
\<close>

fun filter_array :: "('a \<Rightarrow> error + bool) \<Rightarrow> 'a list \<Rightarrow> error + 'a list" where
  "filter_array p [] = Inr []"
| "filter_array p (x # xs) =
     (case p x of
        Inl e \<Rightarrow> Inl e
      | Inr b \<Rightarrow>
          (case filter_array p xs of
             Inl e \<Rightarrow> Inl e
           | Inr ys \<Rightarrow> Inr (if b then x # ys else ys)))"

definition filteredData ::
  "within_interval \<Rightarrow> Client list \<Rightarrow> Program list \<Rightarrow> Target list \<Rightarrow> DataPoint list \<Rightarrow> Filters
     \<Rightarrow> error + DataPoint list" where
  "filteredData isWithinInterval clients allPrograms allTargets dataPoints filters =
     filter_array (keeps isWithinInterval clients allPrograms allTargets filters) dataPoints"

text \<open>
  The predicate in the words of section 4.1 of the specification: a conjunction over the
  facets, each selection set satisfied when it is empty or holds the event's value, the
  three looked-up facets skipped when the lookup finds nothing.
\<close>

definition facet_ok :: "string list \<Rightarrow> string \<Rightarrow> bool" where
  "facet_ok selection v \<longleftrightarrow> selection = [] \<or> v \<in> set selection"

definition mastery_ok :: "Target list \<Rightarrow> Filters \<Rightarrow> DataPoint \<Rightarrow> bool" where
  "mastery_ok allTargets filters dp =
     (case find (\<lambda>t. t_id t = targetId dp) allTargets of
        None \<Rightarrow> True
      | Some t \<Rightarrow> minMastery filters \<le> t_mastery t \<and> t_mastery t \<le> maxMastery filters)"

definition category_ok :: "Program list \<Rightarrow> Filters \<Rightarrow> DataPoint \<Rightarrow> bool" where
  "category_ok allPrograms filters dp =
     (case find (\<lambda>p. p_id p = programId dp) allPrograms of
        None \<Rightarrow> True
      | Some p \<Rightarrow> facet_ok (categories filters) (p_category p))"

definition therapist_ok :: "Client list \<Rightarrow> Filters \<Rightarrow> DataPoint \<Rightarrow> bool" where
  "therapist_ok clients filters dp =
     (case find (\<lambda>c. c_id c = clientId dp) clients of
        None \<Rightarrow> True
      | Some c \<Rightarrow> facet_ok (therapists filters) (c_therapist c))"

definition in_date_range :: "Filters \<Rightarrow> DataPoint \<Rightarrow> bool" where
  "in_date_range filters dp \<longleftrightarrow>
     start (dateRange filters) \<le> date dp \<and> date dp \<le> end' (dateRange filters)"

definition facets_hold :: "Client list \<Rightarrow> Program list \<Rightarrow> Target list \<Rightarrow> Filters \<Rightarrow> DataPoint \<Rightarrow> bool" where
  "facets_hold clients allPrograms allTargets filters dp \<longleftrightarrow>
     facet_ok (clientIds filters) (clientId dp) \<and>
     facet_ok (programIds filters) (programId dp) \<and>
     facet_ok (targetIds filters) (targetId dp) \<and>
     mastery_ok allTargets filters dp \<and>
     category_ok allPrograms filters dp \<and>
     therapist_ok clients filters dp"

definition passes :: "Client list \<Rightarrow> Program list \<Rightarrow> Target list \<Rightarrow> Filters \<Rightarrow> DataPoint \<Rightarrow> bool" where
  "passes clients allPrograms allTargets filters dp \<longleftrightarrow>
     facets_hold clients allPrograms allTargets filters dp \<and> in_date_range filters dp"

section \<open>JavaScript values used by the aggregators\<close>

text \<open>
  \<^verbatim>\<open>new Set(xs)\<close>: the elements of \<open>xs\<close> in insertion order, each kept at its first
  occurrence; \<^verbatim>\<open>.size\<close> is the length of that list.
\<close>

definition Set_add :: "'a list \<Rightarrow> 'a \<Rightarrow> 'a list" where
  "Set_add s x = (if x \<in> set s then s else s @ [x])"

definition new_Set :: "'a list \<Rightarrow> 'a list" where
  "new_Set xs = foldl Set_add [] xs"

text \<open>
  JavaScript numbers are IEEE 754 doubles. A finite double is represented by its exact
  value, a rational. \<open>double_of\<close> rounds a rational to the nearest double: the value is
  scaled by the power of two that brings it into the range from \<open>2^52\<close> up to \<open>2^53\<close>, rounded
  to an integer with ties going to the even one, and scaled back. Subnormal numbers and
  overflow are left out: the numbers rounded here are quotients of two counts and their
  products with 100. Counts are taken to be below \<open>2^53\<close>, where every whole number is a
  double and the sums of the reducers are exact.
\<close>

text \<open>The number of binary digits of a positive integer.\<close>

function bit_length :: "int \<Rightarrow> int" where
  "bit_length n = (if n \<le> 0 then 0 else 1 + bit_length (n div 2))"
  by auto
termination
  by (relation "measure nat") auto

declare bit_length.simps [simp del]

definition pow2 :: "int \<Rightarrow> rat" where
  "pow2 k = (if 0 \<le> k then 2 ^ nat k else 1 / 2 ^ nat (- k))"

definition round_half_even :: "rat \<Rightarrow> int" where
  "round_half_even x =
     (let f = \<lfloor>x\<rfloor>; d = x - of_int f
      in if d < 1 / 2 then f else if 1 / 2 < d then f + 1 else if even f then f else f + 1)"

text \<open>The exponent \<open>e\<close> of a positive rational \<open>q\<close>: \<open>2^e \<le> q < 2^(e+1)\<close>.\<close>

definition binade :: "rat \<Rightarrow> int" where
  "binade q =
     (if 1 \<le> q then bit_length \<lfloor>q\<rfloor> - 1 else - bit_length (\<lceil>1 / q\<rceil> - 1))"

definition double_of :: "rat \<Rightarrow> rat" where
  "double_of q =
     (if q = 0 then 0
      else let ulp = pow2 (binade \<bar>q\<bar> - 52)
           in sgn q * of_int (round_half_even (\<bar>q\<bar> / ulp)) * ulp)"

text \<open>
  The result of a division of two counts: \<^verbatim>\<open>0 / 0\<close> is NaN, \<^verbatim>\<open>a / 0\<close> with \<open>a > 0\<close> is
  Infinity, anything else is the double nearest to the quotient. A product with a finite
  factor is the double nearest to the exact product.
\<close>

datatype number = NaN | Infinity | Finite rat

definition number_div :: "nat \<Rightarrow> nat \<Rightarrow> number" where
  "number_div a b =
     (if b = 0 then (if a = 0 then NaN else Infinity)
      else Finite (double_of (of_nat a / of_nat b)))"

fun number_times :: "number \<Rightarrow> rat \<Rightarrow> number" where
  "number_times NaN k = NaN"
| "number_times Infinity k = Infinity"
| "number_times (Finite x) k = Finite (double_of (x * k))"

fun show_nat :: "nat \<Rightarrow> string" where
  "show_nat n =
     (if n < 10 then [''0123456789'' ! n]
      else show_nat (n div 10) @ [''0123456789'' ! (n mod 10)])"

declare show_nat.simps [simp del]

text \<open>
  \<^verbatim>\<open>Number.prototype.toFixed(1)\<close>: the strings \<^verbatim>\<open>"NaN"\<close> and \<^verbatim>\<open>"Infinity"\<close> for the two
  special values, otherwise the sign and the integer \<open>n\<close> nearest to ten times the
  magnitude of the double's exact value (the larger one on a tie), written with one digit
  after the point.
\<close>

fun toFixed1 :: "number \<Rightarrow> string" where
  "toFixed1 NaN = ''NaN''"
| "toFixed1 Infinity = ''Infinity''"
| "toFixed1 (Finite x) =
     (let n = nat \<lfloor>\<bar>x\<bar> * 10 + 1 / 2\<rfloor>
      in (if x < 0 then ''-'' else []) @ show_nat (n div 10) @ ''.'' @ show_nat (n mod 10))"

text \<open>An \<^verbatim>\<open>accuracy\<close> field holds either a string (from \<^verbatim>\<open>toFixed\<close>) or a number.\<close>

datatype string_or_number = Str string | Num number

text \<open>
  A plain object used as a dictionary, \<^verbatim>\<open>{ [key: string]: ... }\<close>: the own properties in
  insertion order, which is the order of \<^verbatim>\<open>Object.values\<close> for keys that are not array
  indices nor names of inherited properties (the keys here are month labels such as
  \<^verbatim>\<open>"Mar 2024"\<close> and ids such as \<^verbatim>\<open>"p1"\<close>, \<^verbatim>\<open>"p1-t1"\<close>). \<open>has_key\<close> is the truthiness test \<^verbatim>\<open>obj[k]\<close> on an object
  whose values are objects, \<open>assign\<close> is \<^verbatim>\<open>obj[k] = v\<close>, \<open>modify\<close> is an update of the
  fields of \<^verbatim>\<open>obj[k]\<close> in place.
\<close>

type_synonym 'v object = "(string \<times> 'v) list"

definition has_key :: "'v object \<Rightarrow> string \<Rightarrow> bool" where
  "has_key obj k \<longleftrightarrow> map_of obj k \<noteq> None"

fun assign :: "string \<Rightarrow> 'v \<Rightarrow> 'v object \<Rightarrow> 'v object" where
  "assign k v [] = [(k, v)]"
| "assign k v ((k', v') # rest) =
     (if k' = k then (k, v) # rest else (k', v') # assign k v rest)"

fun modify :: "string \<Rightarrow> ('v \<Rightarrow> 'v) \<Rightarrow> 'v object \<Rightarrow> 'v object" where
  "modify k g [] = []"
| "modify k g ((k', v') # rest) =
     (if k' = k then (k', g v') # rest else (k', v') # modify k g rest)"

definition Object_values :: "'v object \<Rightarrow> 'v list" where
  "Object_values obj = map snd obj"

text \<open>
  \<^verbatim>\<open>Array.prototype.sort(compareFn)\<close>. The comparator's result is a number, \<open>None\<close> standing
  for NaN, which the sort reads as \<open>+0\<close>. The sort is stable, so for a comparator that
  orders the elements consistently its result is the one of the stable insertion sort
  below: \<open>x\<close> goes behind \<open>y\<close> exactly when \<open>compareFn x y > 0\<close>.
\<close>

fun insert_sorted :: "('a \<Rightarrow> 'a \<Rightarrow> int option) \<Rightarrow> 'a \<Rightarrow> 'a list \<Rightarrow> 'a list" where
  "insert_sorted compareFn x [] = [x]"
| "insert_sorted compareFn x (y # ys) =
     (if (case compareFn x y of None \<Rightarrow> False | Some v \<Rightarrow> v > 0)
      then y # insert_sorted compareFn x ys
      else x # y # ys)"

definition array_sort :: "('a \<Rightarrow> 'a \<Rightarrow> int option) \<Rightarrow> 'a list \<Rightarrow> 'a list" where
  "array_sort compareFn xs = foldr (insert_sorted compareFn) xs []"

text \<open>Subtraction of two numbers of which either may be NaN.\<close>

fun minus_number :: "int option \<Rightarrow> int option \<Rightarrow> int option" where
  "minus_number (Some a) (Some b) = Some (a - b)"
| "minus_number _ _ = None"

section \<open>Summary Counter (page.tsx, stats)\<close>

record Stats =
  activeClients :: nat
  avgAccuracy :: number
  activePrograms :: nat
  masteredTargets :: nat

text \<open>The two local constants of \<^verbatim>\<open>stats\<close>, each an \<^verbatim>\<open>Array.prototype.reduce\<close> from 0.\<close>

definition totalTrials :: "DataPoint list \<Rightarrow> nat" where
  "totalTrials filteredData' = foldl (\<lambda>sum d. sum + correct d + incorrect d) 0 filteredData'"

definition correctTrials :: "DataPoint list \<Rightarrow> nat" where
  "correctTrials filteredData' = foldl (\<lambda>sum d. sum + correct d) 0 filteredData'"

text \<open>
  \<^verbatim>\<open>filters.clientIds.length || new Set(...).size\<close> is the length when it is not 0, else
  the size of the set. The returned object has the four fields of \<open>Stats\<close> and no other.
\<close>

definition stats :: "Target list \<Rightarrow> Filters \<Rightarrow> DataPoint list \<Rightarrow> Stats" where
  "stats allTargets filters filteredData' =
     \<lparr> activeClients =
         (if length (clientIds filters) \<noteq> 0 then length (clientIds filters)
          else length (new_Set (map clientId filteredData'))),
       avgAccuracy =
         (if totalTrials filteredData' > 0
          then number_times (number_div (correctTrials filteredData') (totalTrials filteredData')) 100
          else Finite 0),
       activePrograms = length (new_Set (map programId filteredData')),
       masteredTargets =
         length (filter (\<lambda>t. case t of None \<Rightarrow> False | Some t' \<Rightarrow> t_mastery t' \<ge> 80)
           (map (\<lambda>tid. find (\<lambda>t. t_id t = tid) allTargets)
             (new_Set (map targetId filteredData')))) \<rparr>"

section \<open>Monthly Cumulative Reducer (page.tsx, cumulativeGraphData)\<close>

text \<open>
  \<^verbatim>\<open>format(dp.date, 'MMM yyyy')\<close> of date-fns and \<^verbatim>\<open>new Date(label).getTime()\<close> of the
  JavaScript engine are not part of the sources; both are parameters. The second gives
  \<open>None\<close> where the engine answers Invalid Date, whose time value is NaN.
\<close>

record MonthBucket =
  m_correct :: nat
  m_incorrect :: nat
  m_date :: string

record MonthPoint =
  month :: string
  cumulative :: nat
  accuracy :: string_or_number
  trials :: nat

definition monthly_step :: "(int \<Rightarrow> string) \<Rightarrow> MonthBucket object \<Rightarrow> DataPoint \<Rightarrow> MonthBucket object" where
  "monthly_step format monthlyData dp =
     (let monthKey = format (date dp);
          monthlyData1 =
            (if \<not> has_key monthlyData monthKey
             then assign monthKey \<lparr> m_correct = 0, m_incorrect = 0, m_date = monthKey \<rparr> monthlyData
             else monthlyData)
      in modify monthKey
           (\<lambda>b. b\<lparr> m_correct := m_correct b + correct dp, m_incorrect := m_incorrect b + incorrect dp \<rparr>)
           monthlyData1)"

definition month_compare :: "(string \<Rightarrow> int option) \<Rightarrow> MonthBucket \<Rightarrow> MonthBucket \<Rightarrow> int option" where
  "month_compare Date_getTime a b = minus_number (Date_getTime (m_date a)) (Date_getTime (m_date b))"

text \<open>
  The \<^verbatim>\<open>sorted.map\<close> with the two running totals \<^verbatim>\<open>cumulativeCorrect\<close> and
  \<^verbatim>\<open>cumulativeIncorrect\<close>, which the callback updates before it builds its point.
\<close>

fun running :: "nat \<Rightarrow> nat \<Rightarrow> MonthBucket list \<Rightarrow> MonthPoint list" where
  "running cumulativeCorrect cumulativeIncorrect [] = []"
| "running cumulativeCorrect cumulativeIncorrect (item # rest) =
     (let cumulativeCorrect' = cumulativeCorrect + m_correct item;
          cumulativeIncorrect' = cumulativeIncorrect + m_incorrect item;
          total = cumulativeCorrect' + cumulativeIncorrect'
      in \<lparr> month = m_date item,
           cumulative = cumulativeCorrect',
           accuracy =
             (if total > 0 then Str (toFixed1 (number_times (number_div cumulativeCorrect' total) 100))
              else Num (Finite 0)),
           trials = total \<rparr>
         # running cumulativeCorrect' cumulativeIncorrect' rest)"

definition monthlyData :: "(int \<Rightarrow> string) \<Rightarrow> DataPoint list \<Rightarrow> MonthBucket object" where
  "monthlyData format filteredData' = foldl (monthly_step format) [] filteredData'"

definition cumulativeGraphData ::
  "(int \<Rightarrow> string) \<Rightarrow> (string \<Rightarrow> int option) \<Rightarrow> DataPoint list \<Rightarrow> MonthPoint list" where
  "cumulativeGraphData format Date_getTime filteredData' =
     (let sorted' = array_sort (month_compare Date_getTime)
                      (Object_values (monthlyData format filteredData'))
      in running 0 0 sorted')"

section \<open>Program Breakdown Reducer (page.tsx, programBreakdown)\<close>

record ProgramStat =
  ps_correct :: nat
  ps_incorrect :: nat
  ps_program :: string

record ProgramRow = ProgramStat +
  ps_accuracy :: string
  ps_total :: nat

definition program_step :: "Program list \<Rightarrow> ProgramStat object \<Rightarrow> DataPoint \<Rightarrow> ProgramStat object" where
  "program_step allPrograms programStats dp =
     (case find (\<lambda>p. p_id p = programId dp) allPrograms of
        None \<Rightarrow> programStats
      | Some program \<Rightarrow>
          (let programStats1 =
                 (if \<not> has_key programStats (p_id program)
                  then assign (p_id program)
                         \<lparr> ps_correct = 0, ps_incorrect = 0, ps_program = p_name program \<rparr> programStats
                  else programStats)
           in modify (p_id program)
                (\<lambda>s. s\<lparr> ps_correct := ps_correct s + correct dp,
                         ps_incorrect := ps_incorrect s + incorrect dp \<rparr>)
                programStats1))"

definition program_row :: "ProgramStat \<Rightarrow> ProgramRow" where
  "program_row item =
     \<lparr> ps_correct = ps_correct item, ps_incorrect = ps_incorrect item, ps_program = ps_program item,
       ps_accuracy =
         toFixed1 (number_times (number_div (ps_correct item) (ps_correct item + ps_incorrect item)) 100),
       ps_total = ps_correct item + ps_incorrect item \<rparr>"

definition programBreakdown :: "Program list \<Rightarrow> DataPoint list \<Rightarrow> ProgramRow list" where
  "programBreakdown allPrograms filteredData' =
     array_sort (\<lambda>a b. Some (int (ps_total b) - int (ps_total a)))
       (map program_row (Object_values (foldl (program_step allPrograms) [] filteredData')))"

section \<open>Target Drill-Down Reducer (page.tsx, targetDrillDown)\<close>

record TargetStat =
  ts_id :: string
  ts_name :: string
  ts_programId :: string
  ts_mastery :: real
  ts_correct :: nat
  ts_incorrect :: nat
  ts_sessions :: nat

record TargetRow = TargetStat +
  ts_accuracy :: string
  ts_total :: nat
  ts_program :: string

text \<open>
  \<^verbatim>\<open>drillDownTarget\<close> has type \<^verbatim>\<open>string | null\<close> and is tested for truthiness: \<^verbatim>\<open>null\<close> and
  the empty string both select the whole filtered subset.
\<close>

definition relevantData :: "string option \<Rightarrow> DataPoint list \<Rightarrow> DataPoint list" where
  "relevantData drillDownTarget filteredData' =
     (case drillDownTarget of
        None \<Rightarrow> filteredData'
      | Some tid \<Rightarrow>
          if tid \<noteq> [] then filter (\<lambda>d. targetId d = tid) filteredData' else filteredData')"

definition target_step :: "Target list \<Rightarrow> TargetStat object \<Rightarrow> DataPoint \<Rightarrow> TargetStat object" where
  "target_step allTargets targetStats dp =
     (case find (\<lambda>t. t_id t = targetId dp) allTargets of
        None \<Rightarrow> targetStats
      | Some target \<Rightarrow>
          (let targetStats1 =
                 (if \<not> has_key targetStats (t_id target)
                  then assign (t_id target)
                         \<lparr> ts_id = t_id target, ts_name = t_name target,
                           ts_programId = t_programId target, ts_mastery = t_mastery target,
                           ts_correct = 0, ts_incorrect = 0, ts_sessions = 0 \<rparr> targetStats
                  else targetStats)
           in modify (t_id target)
                (\<lambda>s. s\<lparr> ts_correct := ts_correct s + correct dp,
                         ts_incorrect := ts_incorrect s + incorrect dp,
                         ts_sessions := ts_sessions s + 1 \<rparr>)
                targetStats1))"

text \<open>\<^verbatim>\<open>allPrograms.find(...)?.name || ''\<close>: the name found, or the empty string.\<close>

definition target_row :: "Program list \<Rightarrow> TargetStat \<Rightarrow> TargetRow" where
  "target_row allPrograms item =
     \<lparr> ts_id = ts_id item, ts_name = ts_name item, ts_programId = ts_programId item,
       ts_mastery = ts_mastery item, ts_correct = ts_correct item,
       ts_incorrect = ts_incorrect item, ts_sessions = ts_sessions item,
       ts_accuracy =
         toFixed1 (number_times (number_div (ts_correct item) (ts_correct item + ts_incorrect item)) 100),
       ts_total = ts_correct item + ts_incorrect item,
       ts_program =
         (case find (\<lambda>p. p_id p = ts_programId item) allPrograms of
            None \<Rightarrow> []
          | Some p \<Rightarrow> if p_name p \<noteq> [] then p_name p else []) \<rparr>"

definition targetDrillDown ::
  "Program list \<Rightarrow> Target list \<Rightarrow> string option \<Rightarrow> DataPoint list \<Rightarrow> TargetRow list" where
  "targetDrillDown allPrograms allTargets drillDownTarget filteredData' =
     array_sort (\<lambda>a b. Some (int (ts_total b) - int (ts_total a)))
       (map (target_row allPrograms)
          (Object_values
             (foldl (target_step allTargets) [] (relevantData drillDownTarget filteredData'))))"

section \<open>Facet toggle (page.tsx, toggleFilter)\<close>

text \<open>
  \<^verbatim>\<open>key: keyof Filters\<close> ranges over all eight fields. \<^verbatim>\<open>prev[key]\<close> is a list for five of
  them; for \<^verbatim>\<open>dateRange\<close> (an object) and the two mastery bounds (numbers)
  \<^verbatim>\<open>current.includes\<close> is not a function and the call throws a TypeError. The values
  toggled by the page are strings.
\<close>

datatype key =
  K_clientIds | K_programIds | K_categories | K_therapists
  | K_dateRange | K_targetIds | K_minMastery | K_maxMastery

datatype field = List_field "string list" | Range_field DateRange | Number_field real

fun get_field :: "Filters \<Rightarrow> key \<Rightarrow> field" where
  "get_field f K_clientIds = List_field (clientIds f)"
| "get_field f K_programIds = List_field (programIds f)"
| "get_field f K_categories = List_field (categories f)"
| "get_field f K_therapists = List_field (therapists f)"
| "get_field f K_dateRange = Range_field (dateRange f)"
| "get_field f K_targetIds = List_field (targetIds f)"
| "get_field f K_minMastery = Number_field (minMastery f)"
| "get_field f K_maxMastery = Number_field (maxMastery f)"

text \<open>\<^verbatim>\<open>{ ...prev, [key]: updated }\<close> for a list \<open>updated\<close>; reached for the list keys only.\<close>

fun set_list :: "Filters \<Rightarrow> key \<Rightarrow> string list \<Rightarrow> Filters" where
  "set_list prev K_clientIds updated = prev\<lparr> clientIds := updated \<rparr>"
| "set_list prev K_programIds updated = prev\<lparr> programIds := updated \<rparr>"
| "set_list prev K_categories updated = prev\<lparr> categories := updated \<rparr>"
| "set_list prev K_therapists updated = prev\<lparr> therapists := updated \<rparr>"
| "set_list prev K_targetIds updated = prev\<lparr> targetIds := updated \<rparr>"
| "set_list prev _ updated = prev"

definition toggleFilter :: "key \<Rightarrow> string \<Rightarrow> Filters \<Rightarrow> error + Filters" where
  "toggleFilter k v prev =
     (case get_field prev k of
        List_field current \<Rightarrow>
          (let updated = (if v \<in> set current then filter (\<lambda>v'. v' \<noteq> v) current else current @ [v])
           in Inr (set_list prev k updated))
      | _ \<Rightarrow> Inl TypeError)"

definition list_valued :: "key \<Rightarrow> bool" where
  "list_valued k \<longleftrightarrow> k \<in> {K_clientIds, K_programIds, K_categories, K_therapists, K_targetIds}"

section \<open>Sample data\<close>

text \<open>
  One client, program and target in the shape the generator produces, the event of the
  scenario in section 8 of the specification (1 March 2024, 8 correct, 2 incorrect), and
  a filter state with empty selections, the full mastery range and the first half of 2024
  as its date range.
\<close>

definition sample_client :: Client where
  "sample_client = \<lparr> c_id = ''c1'', c_name = ''Emma Johnson'', c_age = 5,
     c_diagnosisDate = 1640995200000, c_therapist = ''Dr. Sarah Mitchell'', c_status = Active \<rparr>"

definition sample_program :: Program where
  "sample_program = \<lparr> p_id = ''p1'', p_name = ''Requesting'', p_category = ''Communication'',
     p_targetCount = 12 \<rparr>"

definition sample_target :: Target where
  "sample_target = \<lparr> t_id = ''t1'', t_programId = ''p1'', t_name = ''Request for water'',
     t_mastery = 85, t_trials = 120, t_successRate = 85 \<rparr>"

definition sample_event :: DataPoint where
  "sample_event = \<lparr> date = 1709251200000, clientId = ''c1'', programId = ''p1'', targetId = ''t1'',
     correct = 8, incorrect = 2, sessionDuration = 30 \<rparr>"

definition default_filters :: Filters where
  "default_filters = \<lparr> clientIds = [], programIds = [], categories = [], therapists = [],
     dateRange = \<lparr> start = 1704067200000, end' = 1719792000000 \<rparr>,
     targetIds = [], minMastery = 0, maxMastery = 100 \<rparr>"

text \<open>The default state with its date range turned round: from 1 July back to 1 January 2024.\<close>

definition inverted_filters :: Filters where
  "inverted_filters =
     default_filters\<lparr> dateRange := \<lparr> start = 1719792000000, end' = 1704067200000 \<rparr> \<rparr>"

lemmas sample_defs = sample_client_def sample_program_def sample_target_def sample_event_def
  default_filters_def

text \<open>
  An event without trials, two events in different months (March before January, as in the
  scenario "correct/incorrect (5,0) then (3,2)" of section 8), and a calendar for the first
  quarter of 2024: the month label of a time, and the time value the engine parses from
  such a label (midnight UTC of the first day of the month).
\<close>

definition zero_event :: DataPoint where
  "zero_event = sample_event\<lparr> correct := 0, incorrect := 0 \<rparr>"

definition two_months :: "DataPoint list" where
  "two_months = [sample_event\<lparr> correct := 3, incorrect := 2 \<rparr>,
                 sample_event\<lparr> date := 1704067200000, correct := 5, incorrect := 0 \<rparr>]"

definition sample_format :: "int \<Rightarrow> string" where
  "sample_format t =
     (if t < 1706745600000 then ''Jan 2024''
      else if t < 1709251200000 then ''Feb 2024''
      else ''Mar 2024'')"

definition sample_getTime :: "string \<Rightarrow> int option" where
  "sample_getTime label =
     (if label = ''Jan 2024'' then Some 1704067200000
      else if label = ''Feb 2024'' then Some 1706745600000
      else if label = ''Mar 2024'' then Some 1709251200000
      else None)"

text \<open>The invariant of \<^verbatim>\<open>monthlyData\<close>: every bucket carries its own key as its label.\<close>

definition labelled :: "MonthBucket object \<Rightarrow> bool" where
  "labelled md \<longleftrightarrow> (\<forall>(k, b) \<in> set md. m_date b = k)"

section \<open>Properties of the filter\<close>

lemma keeps_facets:
  "keeps iwi cs ps ts f dp =
     (if facets_hold cs ps ts f dp then iwi (date dp) (dateRange f) else Inr False)"
  by (auto simp: keeps_def facets_hold_def facet_ok_def mastery_ok_def category_ok_def
      therapist_ok_def Let_def split: option.splits sum.splits)

lemma filter_array_total:
  "(\<And>x. x \<in> set xs \<Longrightarrow> p x = Inr (q x)) \<Longrightarrow> filter_array p xs = Inr (filter q xs)"
  by (induction xs) auto

lemma filter_array_subseq: "filter_array p xs = Inr ys \<Longrightarrow> subseq ys xs"
  by (induction xs arbitrary: ys) (auto split: sum.splits if_splits)

lemma filter_array_member:
  "filter_array p xs = Inr ys \<Longrightarrow> x \<in> set ys \<Longrightarrow> p x = Inr True"
  by (induction xs arbitrary: ys) (auto split: sum.splits if_splits)

lemma spec_library_inclusive: "inclusive_when_ordered isWithinInterval_spec"
  by (simp add: inclusive_when_ordered_def isWithinInterval_spec_def)

lemma sample_event_passes:
  "passes [sample_client] [sample_program] [sample_target] default_filters sample_event"
  by (simp add: passes_def facets_hold_def facet_ok_def mastery_ok_def category_ok_def
      therapist_ok_def in_date_range_def sample_defs)

lemma early_event_fails:
  "\<not> passes [sample_client] [sample_program] [sample_target] default_filters
       (sample_event\<lparr> date := 0 \<rparr>)"
  by (simp add: passes_def in_date_range_def sample_defs)

lemma released_libraries_inclusive:
  "inclusive_when_ordered isWithinInterval_throwing"
  "inclusive_when_ordered isWithinInterval_sorting"
  by (simp_all add: inclusive_when_ordered_def isWithinInterval_throwing_def
      isWithinInterval_sorting_def)

text \<open>
  Claim C1, as stated for every Filter Specification, fails on a date range whose start is
  after its end. The event of 1 March 2024 does not lie in the range from 1 July 2024 to
  1 January 2024, so the conjunction of the facet predicates is false for it; with the
  library that sorts the two ends the filter keeps the event all the same, and with the
  library that rejects such a range the filter ends with a RangeError instead of a
  verdict. Both libraries test inclusive membership on ordered ranges.
\<close>

theorem inverted_range_breaks_iff:
  "inclusive_when_ordered isWithinInterval_sorting
   \<and> inclusive_when_ordered isWithinInterval_throwing
   \<and> \<not> passes [sample_client] [sample_program] [sample_target] inverted_filters sample_event
   \<and> keeps isWithinInterval_sorting [sample_client] [sample_program] [sample_target]
         inverted_filters sample_event = Inr True
   \<and> keeps isWithinInterval_throwing [sample_client] [sample_program] [sample_target]
         inverted_filters sample_event = Inl RangeError"
  by (simp add: released_libraries_inclusive passes_def in_date_range_def keeps_def
      isWithinInterval_sorting_def isWithinInterval_throwing_def inverted_filters_def sample_defs)

text \<open>
  Claim C1, amended. For every event and every Filter Specification whose date range has
  \<open>start \<le> end\<close>, an event is kept exactly when every facet predicate holds: each of
  the five selection sets is empty or holds the event's value, the mastery, category and
  therapist tests are skipped when the lookup of the target, program or client finds
  nothing, and the event's date lies in the inclusive date range. The library's date test
  is any function that tests inclusive membership on ordered ranges. The same holds for
  the whole array: the result is the input filtered by that predicate.
\<close>

theorem filter_keeps_iff_all_facets:
  assumes "inclusive_when_ordered isWithinInterval"
    and "start (dateRange filters) \<le> end' (dateRange filters)"
  shows "keeps isWithinInterval clients allPrograms allTargets filters dp
           = Inr (passes clients allPrograms allTargets filters dp)
         \<and> filteredData isWithinInterval clients allPrograms allTargets dataPoints filters
           = Inr (filter (passes clients allPrograms allTargets filters) dataPoints)"
proof -
  have k: "keeps isWithinInterval clients allPrograms allTargets filters e
             = Inr (passes clients allPrograms allTargets filters e)" for e
    using assms
    by (simp add: keeps_facets passes_def in_date_range_def inclusive_when_ordered_def)
  show ?thesis
    unfolding filteredData_def using k by (simp add: filter_array_total)
qed

theorem filter_keeps_iff_all_facets_witness:
  "inclusive_when_ordered isWithinInterval_spec
   \<and> start (dateRange default_filters) \<le> end' (dateRange default_filters)
   \<and> keeps isWithinInterval_spec [sample_client] [sample_program] [sample_target]
        default_filters sample_event = Inr True
   \<and> filteredData isWithinInterval_spec [sample_client] [sample_program] [sample_target]
        [sample_event, sample_event\<lparr> date := 0 \<rparr>] default_filters = Inr [sample_event]"
proof -
  have b: "start (dateRange default_filters) \<le> end' (dateRange default_filters)"
    by (simp add: default_filters_def)
  show ?thesis
    using spec_library_inclusive b sample_event_passes early_event_fails
      filter_keeps_iff_all_facets [OF spec_library_inclusive b,
        of "[sample_client]" "[sample_program]" "[sample_target]"
        sample_event "[sample_event, sample_event\<lparr> date := 0 \<rparr>]"]
    by simp
qed

text \<open>
  Claim C2. With the five selection sets empty, the mastery range 0 to 100 and a date
  range that holds the date of every event, the filter returns the event log unchanged.
  Mastery values are percentages (\<^verbatim>\<open>mastery: number; // 0-100\<close> in the source), which is
  what makes the range 0 to 100 the full one.
\<close>

theorem empty_facets_identity:
  assumes "inclusive_when_ordered isWithinInterval"
    and "clientIds filters = []" and "programIds filters = []" and "targetIds filters = []"
    and "categories filters = []" and "therapists filters = []"
    and "minMastery filters = 0" and "maxMastery filters = 100"
    and "\<forall>e \<in> set dataPoints.
           start (dateRange filters) \<le> date e \<and> date e \<le> end' (dateRange filters)"
    and "\<forall>t \<in> set allTargets. 0 \<le> t_mastery t \<and> t_mastery t \<le> 100"
  shows "filteredData isWithinInterval clients allPrograms allTargets dataPoints filters
           = Inr dataPoints"
proof -
  have "keeps isWithinInterval clients allPrograms allTargets filters e = Inr True"
    if e: "e \<in> set dataPoints" for e
  proof -
    from e assms(9)
    have d: "start (dateRange filters) \<le> date e" "date e \<le> end' (dateRange filters)"
      by auto
    then have "isWithinInterval (date e) (dateRange filters) = Inr True"
      using assms(1) by (simp add: inclusive_when_ordered_def)
    moreover have "mastery_ok allTargets filters e"
      using assms(7,8,10) by (auto simp: mastery_ok_def find_Some_iff split: option.splits)
    ultimately show ?thesis
      using assms(2-6)
      by (simp add: keeps_facets facets_hold_def facet_ok_def category_ok_def therapist_ok_def
          split: option.splits)
  qed
  then have "filter_array (keeps isWithinInterval clients allPrograms allTargets filters) dataPoints
      = Inr (filter (\<lambda>_. True) dataPoints)"
    by (intro filter_array_total) simp
  then show ?thesis by (simp add: filteredData_def)
qed

theorem empty_facets_identity_witness:
  "filteredData isWithinInterval_spec [sample_client] [sample_program] [sample_target]
     [sample_event, sample_event\<lparr> correct := 3 \<rparr>] default_filters
   = Inr [sample_event, sample_event\<lparr> correct := 3 \<rparr>]"
  using empty_facets_identity [OF spec_library_inclusive,
      of default_filters "[sample_event, sample_event\<lparr> correct := 3 \<rparr>]" "[sample_target]"
         "[sample_client]" "[sample_program]"]
  by (simp add: sample_defs)

text \<open>
  Claim C3. The filter's output is an order-preserving subsequence of the event log:
  every returned event occurs in the input and the returned events stand in the order of
  the input. The call returns whenever the library's date test returns on the events of
  the log. The filter builds a new array and only reads its inputs; in the model the
  inputs are values and the output is a new value.
\<close>

theorem filtered_is_subsequence:
  assumes "\<forall>e \<in> set dataPoints. \<exists>b. isWithinInterval (date e) (dateRange filters) = Inr b"
  shows "\<exists>ys. filteredData isWithinInterval clients allPrograms allTargets dataPoints filters = Inr ys
           \<and> subseq ys dataPoints \<and> set ys \<subseteq> set dataPoints"
proof -
  let ?p = "keeps isWithinInterval clients allPrograms allTargets filters"
  have "\<exists>b. ?p e = Inr b" if "e \<in> set dataPoints" for e
    using that assms by (auto simp: keeps_facets)
  then have "?p e = Inr (?p e = Inr True)" if "e \<in> set dataPoints" for e
    using that by fastforce
  then have "filter_array ?p dataPoints = Inr (filter (\<lambda>e. ?p e = Inr True) dataPoints)"
    by (intro filter_array_total) simp
  then show ?thesis
    by (auto simp: filteredData_def)
qed

theorem filtered_is_subsequence_witness:
  "\<exists>ys. filteredData isWithinInterval_spec [sample_client] [sample_program] [sample_target]
          [sample_event\<lparr> date := 0 \<rparr>, sample_event] default_filters = Inr ys
        \<and> subseq ys [sample_event\<lparr> date := 0 \<rparr>, sample_event]
        \<and> set ys \<subseteq> set [sample_event\<lparr> date := 0 \<rparr>, sample_event]"
  using filtered_is_subsequence [of "[sample_event\<lparr> date := 0 \<rparr>, sample_event]"
      isWithinInterval_spec default_filters "[sample_client]" "[sample_program]" "[sample_target]"]
  by (simp add: isWithinInterval_spec_def)

text \<open>
  Claim C9. When \<open>minMastery\<close> is above \<open>maxMastery\<close>, no target passes the mastery test:
  an event whose target id is found in the target table is rejected, whatever the library's
  date test would do, so it is in no returned array; and when every event's target id is
  found, the filter returns the empty array without an exception.
\<close>

theorem inverted_mastery_excludes:
  assumes "minMastery filters > maxMastery filters"
    and "find (\<lambda>t. t_id t = targetId dp) allTargets = Some target"
  shows "keeps isWithinInterval clients allPrograms allTargets filters dp = Inr False
         \<and> (\<forall>ys. filteredData isWithinInterval clients allPrograms allTargets dataPoints filters = Inr ys
               \<longrightarrow> dp \<notin> set ys)
         \<and> ((\<forall>e \<in> set dataPoints. find (\<lambda>t. t_id t = targetId e) allTargets \<noteq> None)
               \<longrightarrow> filteredData isWithinInterval clients allPrograms allTargets dataPoints filters
                     = Inr [])"
proof -
  have ex: "keeps isWithinInterval clients allPrograms allTargets filters e = Inr False"
    if "find (\<lambda>t. t_id t = targetId e) allTargets \<noteq> None" for e
    using that assms(1) by (auto simp: keeps_facets facets_hold_def mastery_ok_def)
  have 1: "keeps isWithinInterval clients allPrograms allTargets filters dp = Inr False"
    using ex [of dp] assms(2) by simp
  have 2: "dp \<notin> set ys"
    if "filteredData isWithinInterval clients allPrograms allTargets dataPoints filters = Inr ys"
    for ys
    using filter_array_member [OF that [unfolded filteredData_def], of dp] 1 by auto
  have 3: "filteredData isWithinInterval clients allPrograms allTargets dataPoints filters = Inr []"
    if "\<forall>e \<in> set dataPoints. find (\<lambda>t. t_id t = targetId e) allTargets \<noteq> None"
  proof -
    have "filter_array (keeps isWithinInterval clients allPrograms allTargets filters) dataPoints
        = Inr (filter (\<lambda>_. False) dataPoints)"
      using that ex by (intro filter_array_total) simp
    then show ?thesis by (simp add: filteredData_def)
  qed
  from 1 2 3 show ?thesis by blast
qed

theorem inverted_mastery_excludes_witness:
  "minMastery (default_filters\<lparr> minMastery := 90, maxMastery := 10 \<rparr>)
     > maxMastery (default_filters\<lparr> minMastery := 90, maxMastery := 10 \<rparr>)
   \<and> keeps isWithinInterval_spec [sample_client] [sample_program] [sample_target]
       (default_filters\<lparr> minMastery := 90, maxMastery := 10 \<rparr>) sample_event = Inr False
   \<and> filteredData isWithinInterval_spec [sample_client] [sample_program] [sample_target]
       [sample_event] (default_filters\<lparr> minMastery := 90, maxMastery := 10 \<rparr>) = Inr []"
  using inverted_mastery_excludes [of "default_filters\<lparr> minMastery := 90, maxMastery := 10 \<rparr>"
      sample_event "[sample_target]" sample_target isWithinInterval_spec
      "[sample_client]" "[sample_program]" "[sample_event]"]
  by (simp add: sample_defs)


section \<open>Properties of the aggregators\<close>

subsection \<open>Sets\<close>

lemma set_foldl_Set_add: "set (foldl Set_add s xs) = set s \<union> set xs"
  by (induction xs arbitrary: s) (auto simp: Set_add_def)

lemma distinct_foldl_Set_add: "distinct s \<Longrightarrow> distinct (foldl Set_add s xs)"
  by (induction xs arbitrary: s) (auto simp: Set_add_def)

lemma set_new_Set: "set (new_Set xs) = set xs"
  by (simp add: new_Set_def set_foldl_Set_add)

lemma distinct_new_Set: "distinct (new_Set xs)"
  by (simp add: new_Set_def distinct_foldl_Set_add)

lemma length_new_Set: "length (new_Set xs) = card (set xs)"
  using distinct_card [OF distinct_new_Set, of xs] by (simp add: set_new_Set)

subsection \<open>Doubles\<close>

text \<open>
  The rounding reproduces the engine's results: \<^verbatim>\<open>1 / 3\<close> is 0.3333333333333333,
  \<^verbatim>\<open>1 / 3 * 100\<close> is 33.33333333333333, \<^verbatim>\<open>7 / 25 * 100\<close> is 28.000000000000004 (one unit in
  the last place above 28), \<^verbatim>\<open>23 / 80 * 100\<close> is 28.749999999999996 (one below 28.75, so
  that \<^verbatim>\<open>toFixed(1)\<close> gives \<^verbatim>\<open>"28.7"\<close>), and \<^verbatim>\<open>8 / 10 * 100\<close> is 80.
\<close>

lemma double_1_of_3: "double_of (1 / 3) = 6004799503160661 / 2 ^ 54"
  by code_simp

lemma double_1_of_3_percent: "double_of (double_of (1 / 3) * 100) = 2345624805922133 / 2 ^ 46"
  by code_simp

lemma double_7_of_25_percent: "double_of (double_of (7 / 25) * 100) = 28 + 1 / 2 ^ 48"
  by code_simp

lemma double_23_of_80_percent: "double_of (double_of (23 / 80) * 100) = 28 + 3 / 4 - 1 / 2 ^ 48"
  by code_simp

lemma toFixed1_23_of_80: "toFixed1 (number_times (number_div 23 80) 100) = ''28.7''"
  by code_simp

lemma double_8_of_10: "double_of (double_of (4 / 5) * 100) = 80"
  by code_simp

subsection \<open>Summary Counter\<close>

text \<open>
  Claim C4. \<^verbatim>\<open>activeClients\<close> is the number of selected client ids whenever the
  selection is not empty, whether or not each selected client has an event in the
  filtered subset, and otherwise the number of distinct client ids of the subset.
\<close>

theorem active_clients_override:
  "activeClients (stats allTargets filters filteredData') =
     (if clientIds filters \<noteq> [] then length (clientIds filters)
      else card (clientId ` set filteredData'))"
  by (simp add: stats_def length_new_Set)

theorem active_clients_override_witness:
  "activeClients (stats [sample_target] (default_filters\<lparr> clientIds := [''c1'', ''c2''] \<rparr>)
      [sample_event]) = 2
   \<and> activeClients (stats [sample_target] default_filters [sample_event, sample_event]) = 1"
  using active_clients_override [of "[sample_target]"
      "default_filters\<lparr> clientIds := [''c1'', ''c2''] \<rparr>" "[sample_event]"]
    active_clients_override [of "[sample_target]" default_filters "[sample_event, sample_event]"]
  by (simp add: sample_defs)

lemma foldl_add_sum: "foldl (\<lambda>sum d. sum + g d) (a::nat) xs = a + sum_list (map g xs)"
  by (induction xs arbitrary: a) auto

lemma totalTrials_sum: "totalTrials xs = (\<Sum>d\<leftarrow>xs. correct d + incorrect d)"
  using foldl_add_sum [of "\<lambda>d. correct d + incorrect d" 0 xs]
  by (simp add: totalTrials_def add.assoc)

lemma correctTrials_sum: "correctTrials xs = (\<Sum>d\<leftarrow>xs. correct d)"
  using foldl_add_sum [of correct 0 xs] by (simp add: correctTrials_def)

text \<open>
  Claim C5, as stated, fails: the object \<^verbatim>\<open>stats\<close> returns has no field for the total or
  the correct trials. The two subsets below (one event with 8 correct and 2 incorrect, one
  event with 4 correct and 1 incorrect) have the same output, while their total trials are
  10 and 5 and their correct trials are 8 and 4: nothing in the output equals either sum.
\<close>

theorem stats_hides_trial_totals:
  "stats [sample_target] default_filters [sample_event]
     = stats [sample_target] default_filters [sample_event\<lparr> correct := 4, incorrect := 1 \<rparr>]
   \<and> totalTrials [sample_event] = 10
   \<and> totalTrials [sample_event\<lparr> correct := 4, incorrect := 1 \<rparr>] = 5
   \<and> correctTrials [sample_event] = 8
   \<and> correctTrials [sample_event\<lparr> correct := 4, incorrect := 1 \<rparr>] = 4"
  by (simp add: stats_def totalTrials_def correctTrials_def new_Set_def Set_add_def
      number_div_def sample_defs)

text \<open>
  Claim C5, amended. Inside the Summary Counter the total trials are the sum of
  correct + incorrect over the subset and the correct trials the sum of correct; both are
  local values, and the output carries only \<^verbatim>\<open>avgAccuracy\<close>: 0 when the total is 0, and
  otherwise the double nearest to 100 times the double nearest to correct / total. For the
  single event with 8 correct and 2 incorrect the local values are 10 and 8 and
  \<^verbatim>\<open>avgAccuracy\<close> is 80.
\<close>

theorem summary_accuracy_from_sums:
  "totalTrials filteredData' = (\<Sum>d\<leftarrow>filteredData'. correct d + incorrect d)
   \<and> correctTrials filteredData' = (\<Sum>d\<leftarrow>filteredData'. correct d)
   \<and> avgAccuracy (stats allTargets filters filteredData') =
       (if (\<Sum>d\<leftarrow>filteredData'. correct d + incorrect d) > 0
        then Finite (double_of (double_of
               (of_nat (\<Sum>d\<leftarrow>filteredData'. correct d)
                  / of_nat (\<Sum>d\<leftarrow>filteredData'. correct d + incorrect d)) * 100))
        else Finite 0)"
  by (simp add: stats_def totalTrials_sum correctTrials_sum number_div_def)

theorem summary_accuracy_from_sums_witness:
  "totalTrials [sample_event] = 10 \<and> correctTrials [sample_event] = 8
   \<and> avgAccuracy (stats [sample_target] default_filters [sample_event]) = Finite 80"
  using summary_accuracy_from_sums [of "[sample_event]" "[sample_target]" default_filters]
  by (simp add: sample_defs double_8_of_10)

subsection \<open>Objects and the sort\<close>

lemma keys_modify: "map fst (modify k g obj) = map fst obj"
  by (induction obj) auto

lemma keys_assign:
  "map fst (assign k v obj) = (if k \<in> set (map fst obj) then map fst obj else map fst obj @ [k])"
  by (induction obj) force+

lemma has_key_iff: "has_key obj k \<longleftrightarrow> k \<in> set (map fst obj)"
  by (simp add: has_key_def map_of_eq_None_iff)

lemma mset_insert_sorted: "mset (insert_sorted c x ys) = add_mset x (mset ys)"
  by (induction ys) auto

lemma mset_array_sort: "mset (array_sort c xs) = mset xs"
  by (induction xs) (simp_all add: array_sort_def mset_insert_sorted)

subsection \<open>Monthly Cumulative Reducer\<close>

lemma keys_monthly_step:
  "map fst (monthly_step format md dp) = Set_add (map fst md) (format (date dp))"
  by (simp add: monthly_step_def Let_def keys_modify keys_assign has_key_iff Set_add_def)

lemma keys_foldl_monthly_step:
  "map fst (foldl (monthly_step format) md xs)
     = foldl Set_add (map fst md) (map (\<lambda>e. format (date e)) xs)"
  by (induction xs arbitrary: md) (simp_all add: keys_monthly_step)

lemma labelled_modify:
  "labelled md \<Longrightarrow> (\<And>b. m_date (g b) = m_date b) \<Longrightarrow> labelled (modify k g md)"
  by (induction md) (auto simp: labelled_def split: if_splits)

lemma labelled_assign:
  "labelled md \<Longrightarrow> m_date v = k \<Longrightarrow> labelled (assign k v md)"
  by (induction md) (auto simp: labelled_def split: if_splits)

lemma labelled_monthly_step: "labelled md \<Longrightarrow> labelled (monthly_step format md dp)"
  by (simp add: monthly_step_def Let_def labelled_modify labelled_assign)

lemma labelled_foldl: "labelled md \<Longrightarrow> labelled (foldl (monthly_step format) md xs)"
  by (induction xs arbitrary: md) (simp_all add: labelled_monthly_step)

lemma labelled_dates: "labelled md \<Longrightarrow> map m_date (Object_values md) = map fst md"
  by (induction md) (auto simp: labelled_def Object_values_def)

lemma bucket_labels:
  "map m_date (Object_values (monthlyData format xs)) = new_Set (map (\<lambda>e. format (date e)) xs)"
proof -
  have "labelled (monthlyData format xs)"
    unfolding monthlyData_def by (rule labelled_foldl) (simp add: labelled_def)
  then show ?thesis
    by (simp add: labelled_dates) (simp add: monthlyData_def keys_foldl_monthly_step new_Set_def)
qed

text \<open>
  When every label has a time value, the comparator is the difference of two integers and
  the sort is the library's stable sort by that time value.
\<close>

lemma insert_sorted_insort_key:
  assumes "g (m_date x) \<noteq> None" and "\<forall>y \<in> set ys. g (m_date y) \<noteq> None"
  shows "insert_sorted (month_compare g) x ys = insort_key (\<lambda>b. the (g (m_date b))) x ys"
  using assms by (induction ys) (auto simp: month_compare_def)

lemma array_sort_sort_key:
  assumes "\<forall>y \<in> set xs. g (m_date y) \<noteq> None"
  shows "array_sort (month_compare g) xs = sort_key (\<lambda>b. the (g (m_date b))) xs"
  using assms
proof (induction xs)
  case Nil
  then show ?case by (simp add: array_sort_def)
next
  case (Cons x xs)
  then have ih: "array_sort (month_compare g) xs = sort_key (\<lambda>b. the (g (m_date b))) xs"
    by simp
  have "array_sort (month_compare g) (x # xs)
      = insert_sorted (month_compare g) x (array_sort (month_compare g) xs)"
    by (simp add: array_sort_def)
  also have "\<dots> = insort_key (\<lambda>b. the (g (m_date b))) x (sort_key (\<lambda>b. the (g (m_date b))) xs)"
    unfolding ih using Cons.prems by (intro insert_sorted_insort_key) simp_all
  finally show ?case by (simp add: sort_key_def)
qed

lemma month_running: "map month (running a b xs) = map m_date xs"
  by (induction xs arbitrary: a b) (simp_all add: Let_def)

lemma running_lower: "p \<in> set (running a b xs) \<Longrightarrow> a \<le> cumulative p"
  by (induction xs arbitrary: a b) (auto simp: Let_def dest: add_leD1)

lemma sorted_running: "sorted (map cumulative (running a b xs))"
proof (induction xs arbitrary: a b)
  case Nil
  then show ?case by simp
next
  case (Cons x xs)
  then show ?case
    using running_lower [of _ "a + m_correct x" "b + m_incorrect x" xs]
    by (auto simp: Let_def)
qed

lemma two_months_points:
  "cumulativeGraphData sample_format sample_getTime two_months =
    [\<lparr>month = ''Jan 2024'', cumulative = 5, accuracy = Str ''100.0'', trials = 5\<rparr>,
     \<lparr>month = ''Mar 2024'', cumulative = 8, accuracy = Str ''80.0'', trials = 10\<rparr>]"
  by code_simp

text \<open>
  Claim C7. The Monthly Cumulative Reducer emits one point per month label of the subset
  (the labels of the points are distinct and are exactly the labels of the events), the
  points are in the order of the time values re-derived from their labels, and the
  cumulative correct count never decreases from one point to the next. The order by time
  value needs the engine to parse every month label of the subset into a date.
\<close>

theorem monthly_points_ordered:
  assumes "\<forall>e \<in> set filteredData'. Date_getTime (format (date e)) \<noteq> None"
  shows "distinct (map month (cumulativeGraphData format Date_getTime filteredData'))
       \<and> set (map month (cumulativeGraphData format Date_getTime filteredData'))
           = (\<lambda>e. format (date e)) ` set filteredData'
       \<and> (\<exists>times. map (\<lambda>p. Date_getTime (month p))
                     (cumulativeGraphData format Date_getTime filteredData') = map Some times
                   \<and> sorted times)
       \<and> sorted (map cumulative (cumulativeGraphData format Date_getTime filteredData'))"
proof -
  let ?vals = "Object_values (monthlyData format filteredData')"
  let ?sorted = "array_sort (month_compare Date_getTime) ?vals"
  let ?key = "\<lambda>b. the (Date_getTime (m_date b))"
  have out: "cumulativeGraphData format Date_getTime filteredData' = running 0 0 ?sorted"
    by (simp add: cumulativeGraphData_def)
  have labels: "map m_date ?vals = new_Set (map (\<lambda>e. format (date e)) filteredData')"
    by (rule bucket_labels)
  have "mset (map m_date ?sorted) = mset (map m_date ?vals)"
    by (simp add: mset_array_sort)
  then have perm:
    "mset (map m_date ?sorted) = mset (new_Set (map (\<lambda>e. format (date e)) filteredData'))"
    by (simp only: labels)
  have d: "distinct (map m_date ?sorted)"
    using mset_eq_imp_distinct_iff [OF perm] distinct_new_Set by blast
  have s: "set (map m_date ?sorted) = (\<lambda>e. format (date e)) ` set filteredData'"
    using mset_eq_setD [OF perm] by (simp add: set_new_Set)
  have parsed: "\<forall>b \<in> set ?vals. Date_getTime (m_date b) \<noteq> None"
  proof
    fix b assume "b \<in> set ?vals"
    then have "m_date b \<in> set (map m_date ?vals)" by simp
    then have "m_date b \<in> (\<lambda>e. format (date e)) ` set filteredData'"
      by (simp only: labels set_new_Set set_map)
    then show "Date_getTime (m_date b) \<noteq> None" using assms by auto
  qed
  have sk: "?sorted = sort_key ?key ?vals"
    using parsed by (rule array_sort_sort_key)
  have "map (\<lambda>b. Date_getTime (m_date b)) ?sorted = map Some (map ?key ?sorted)"
    using parsed by (simp add: sk)
  moreover have "sorted (map ?key ?sorted)"
    by (simp only: sk sorted_sort_key)
  ultimately have t:
    "\<exists>times. map (\<lambda>b. Date_getTime (m_date b)) ?sorted = map Some times \<and> sorted times"
    by blast
  have m: "map (\<lambda>p. Date_getTime (month p)) (running 0 0 ?sorted)
      = map (\<lambda>b. Date_getTime (m_date b)) ?sorted"
    using month_running [of 0 0 ?sorted, THEN arg_cong, of "map Date_getTime"]
    by (simp add: comp_def)
  show ?thesis
    unfolding out using d s t
    by (simp only: month_running m sorted_running)
qed

theorem monthly_points_ordered_witness:
  "map month (cumulativeGraphData sample_format sample_getTime two_months)
       = [''Jan 2024'', ''Mar 2024'']
   \<and> map (\<lambda>p. sample_getTime (month p))
         (cumulativeGraphData sample_format sample_getTime two_months)
       = [Some 1704067200000, Some 1709251200000]
   \<and> map cumulative (cumulativeGraphData sample_format sample_getTime two_months) = [5, 8]
   \<and> sorted (map cumulative (cumulativeGraphData sample_format sample_getTime two_months))"
proof -
  have h: "\<forall>e \<in> set two_months. sample_getTime (sample_format (date e)) \<noteq> None"
    by (simp add: two_months_def sample_format_def sample_getTime_def sample_defs)
  from monthly_points_ordered [OF h] show ?thesis
    by (simp add: two_months_points sample_getTime_def)
qed

subsection \<open>Program Breakdown and Target Drill-Down\<close>







lemma program_row_zero:
  "ps_correct item + ps_incorrect item = 0 \<Longrightarrow> ps_accuracy (program_row item) = ''NaN''"
  by (simp add: program_row_def number_div_def)

lemma target_row_zero:
  "ts_correct item + ts_incorrect item = 0
     \<Longrightarrow> ts_accuracy (target_row allPrograms item) = ''NaN''"
  by (simp add: target_row_def number_div_def)














text \<open>
  An event without trials, which the generator never produces (it gives every event at
  least 5 trials), would get the accuracy \<^verbatim>\<open>"NaN"\<close> from the two reducers that divide
  without a test, and 0 from the two that test the total first.
\<close>

lemma zero_trial_event_accuracy:
  "map ps_accuracy (programBreakdown [sample_program] [zero_event]) = [''NaN'']"
  "map ts_accuracy (targetDrillDown [sample_program] [sample_target] None [zero_event]) = [''NaN'']"
  "avgAccuracy (stats [sample_target] default_filters [zero_event]) = Finite 0"
  "map accuracy (cumulativeGraphData sample_format sample_getTime [zero_event]) = [Num (Finite 0)]"
  by code_simp+



text \<open>
  \<^verbatim>\<open>drillDownTarget\<close> is tested for truthiness, here and where the page shows the button
  that clears the selection: \<^verbatim>\<open>null\<close> and the empty string both mean that no target is
  focused, and the reducer treats them alike.
\<close>

lemma empty_id_is_no_selection:
  "targetDrillDown allPrograms allTargets (Some []) xs
     = targetDrillDown allPrograms allTargets None xs"
  by (simp add: targetDrillDown_def relevantData_def)

text \<open>
  Claim C8. A target is focused when \<^verbatim>\<open>drillDownTarget\<close> is a non-empty string. For every
  filtered subset and every focused target id that matches no event of the subset, in the
  target table or not, the Target Drill-Down Reducer returns the empty row list, and no
  exception is raised.
\<close>

theorem focused_unknown_target_empty:
  assumes "tid \<noteq> []" and "\<forall>d \<in> set filteredData'. targetId d \<noteq> tid"
  shows "targetDrillDown allPrograms allTargets (Some tid) filteredData' = []"
proof -
  have "filter (\<lambda>d. targetId d = tid) filteredData' = []"
    using assms(2) by (simp add: filter_empty_conv)
  then show ?thesis
    using assms(1)
    by (simp add: targetDrillDown_def relevantData_def Object_values_def array_sort_def)
qed

theorem focused_unknown_target_empty_witness:
  "''p9-t9'' \<noteq> [] \<and> targetId sample_event \<noteq> ''p9-t9''
   \<and> targetDrillDown [sample_program] [sample_target] (Some ''p9-t9'') [sample_event] = []"
  using focused_unknown_target_empty [of "''p9-t9''" "[sample_event]"
      "[sample_program]" "[sample_target]"]
  by (simp add: sample_defs)

section \<open>Properties of the facet toggle\<close>

lemma set_list_other: "k' \<noteq> k \<Longrightarrow> get_field (set_list f k xs) k' = get_field f k'"
  by (cases k; cases k') simp_all

lemma set_list_same:
  "get_field f k = List_field xs \<Longrightarrow> get_field (set_list f k ys) k = List_field ys"
  by (cases k) simp_all

lemma set_list_twice: "set_list (set_list f k ys) k zs = set_list f k zs"
  by (cases k) simp_all

lemma set_list_id: "get_field f k = List_field xs \<Longrightarrow> set_list f k xs = f"
  by (cases k) auto

lemma list_valued_field: "list_valued k \<Longrightarrow> \<exists>xs. get_field f k = List_field xs"
  by (cases k) (simp_all add: list_valued_def)

text \<open>
  Claim C10. For a list-valued facet key, a toggle returns a filter state in which every
  field other than the named one is as before; and when the value is not in the facet's
  list, a second toggle with the same key and value gives back exactly the original
  state.
\<close>

theorem toggle_twice_restores:
  assumes "list_valued k"
  shows "\<exists>f1. toggleFilter k v f = Inr f1
           \<and> (\<forall>k'. k' \<noteq> k \<longrightarrow> get_field f1 k' = get_field f k')
           \<and> (\<forall>xs. get_field f k = List_field xs \<and> v \<notin> set xs \<longrightarrow> toggleFilter k v f1 = Inr f)"
proof -
  from list_valued_field [OF assms] obtain xs where xs: "get_field f k = List_field xs"
    by blast
  let ?u = "if v \<in> set xs then filter (\<lambda>v'. v' \<noteq> v) xs else xs @ [v]"
  have 1: "toggleFilter k v f = Inr (set_list f k ?u)"
    by (simp add: toggleFilter_def xs)
  have 2: "\<forall>k'. k' \<noteq> k \<longrightarrow> get_field (set_list f k ?u) k' = get_field f k'"
    by (simp add: set_list_other)
  have 3: "toggleFilter k v (set_list f k ?u) = Inr f" if "v \<notin> set xs"
  proof -
    have "get_field (set_list f k (xs @ [v])) k = List_field (xs @ [v])"
      using xs by (rule set_list_same)
    then have "toggleFilter k v (set_list f k (xs @ [v]))
        = Inr (set_list (set_list f k (xs @ [v])) k (filter (\<lambda>v'. v' \<noteq> v) (xs @ [v])))"
      by (simp add: toggleFilter_def)
    also have "filter (\<lambda>v'. v' \<noteq> v) (xs @ [v]) = xs"
      using that by (auto simp: filter_id_conv)
    finally show ?thesis
      using that xs by (simp add: set_list_twice set_list_id)
  qed
  from 1 2 3 xs show ?thesis by auto
qed

theorem toggle_twice_restores_witness:
  "list_valued K_clientIds
   \<and> toggleFilter K_clientIds ''c1'' default_filters
       = Inr (default_filters\<lparr> clientIds := [''c1''] \<rparr>)
   \<and> toggleFilter K_clientIds ''c1'' (default_filters\<lparr> clientIds := [''c1''] \<rparr>)
       = Inr default_filters"
  using toggle_twice_restores [of K_clientIds "''c1''" default_filters]
  by (auto simp: list_valued_def toggleFilter_def default_filters_def)


end
